theory Spec2Isabelle
  imports Complex_Main
begin

section \<open>Numbers and strings of the host language\<close>

text \<open>
  The program is JavaScript. Its numbers are IEEE doubles; here a number is a \<open>real\<close>:
  a finite double read as the exact value it denotes, with exact arithmetic. Rounding,
  overflow to an infinity and the sign of zero are not part of this model. The price is
  kept as text and read with \<open>parseFloat\<close> at each use; text can denote anything, so
  the result of \<open>parseFloat\<close> has a type of its own, \<open>number\<close> below, with NaN and the
  infinities. Counts of transactions are natural numbers, as the data model types them.
\<close>

subsection \<open>Decimal digits\<close>

definition is_digit :: "char \<Rightarrow> bool" where
  "is_digit c = (c \<in> set ''0123456789'')"

text \<open>The value of a digit is its place in the row of digits.\<close>

definition digit_val :: "char \<Rightarrow> nat" where
  "digit_val c = length (takeWhile (\<lambda>d. d \<noteq> c) ''0123456789'')"

definition digit_char :: "nat \<Rightarrow> char" where
  "digit_char d = ''0123456789'' ! (d mod 10)"

text \<open>The value of a digit string, most significant digit first.\<close>

definition digits_val :: "string \<Rightarrow> nat" where
  "digits_val ds = foldl (\<lambda>acc c. 10 * acc + digit_val c) 0 ds"

text \<open>The decimal digits of a natural number, with no leading zero (\<open>0\<close> is \<open>''0''\<close>).\<close>

fun dec_digits :: "nat \<Rightarrow> string" where
  "dec_digits n =
     (if n < 10 then [digit_char n] else dec_digits (n div 10) @ [digit_char (n mod 10)])"

declare dec_digits.simps [simp del]

subsection \<open>Number.prototype.toFixed\<close>

text \<open>
  \<open>x.toFixed(f)\<close>: the sign is taken from \<open>x\<close> before rounding; the magnitude is
  rounded to the nearest multiple of \<open>10^-f\<close>, a tie going up; the digits are padded with
  zeros on the left to \<open>f + 1\<close> places and the point is put before the last \<open>f\<close>.
  (From \<open>10^21\<close> on the language prints in exponent notation, with digits that depend on
  the binary representation; the model keeps the fixed notation there.)
\<close>

definition toFixed :: "nat \<Rightarrow> real \<Rightarrow> string" where
  "toFixed f x =
     (let s = (if x < 0 then ''-'' else '''');
          a = \<bar>x\<bar>;
          n = nat \<lfloor>a * 10 ^ f + 1 / 2\<rfloor>;
          m = dec_digits n;
          m' = (if f = 0 then m
                else (let z = replicate (f + 1 - length m) CHR ''0'';
                          p = z @ m;
                          k = length p
                      in take (k - f) p @ ''.'' @ drop (k - f) p))
      in s @ m')"

subsection \<open>Numbers read from text\<close>

text \<open>
  The result of \<open>parseFloat\<close>, and of arithmetic on such results: not a number, a finite
  number, or an infinity. Arithmetic on two finite numbers is exact; on the other values
  it follows the IEEE rules of the language. The model has one zero, which divides like
  the positive zero; the program divides only by constants and by values it has tested
  to be positive.
\<close>

datatype number = NaN | Num real | PosInf | NegInf

fun js_neg :: "number \<Rightarrow> number" where
  "js_neg NaN = NaN"
| "js_neg (Num x) = Num (- x)"
| "js_neg PosInf = NegInf"
| "js_neg NegInf = PosInf"

fun js_abs :: "number \<Rightarrow> number" where
  "js_abs NaN = NaN"
| "js_abs (Num x) = Num \<bar>x\<bar>"
| "js_abs PosInf = PosInf"
| "js_abs NegInf = PosInf"

fun js_sub :: "number \<Rightarrow> number \<Rightarrow> number" where
  "js_sub NaN b = NaN"
| "js_sub a NaN = NaN"
| "js_sub (Num x) (Num y) = Num (x - y)"
| "js_sub (Num x) PosInf = NegInf"
| "js_sub (Num x) NegInf = PosInf"
| "js_sub PosInf PosInf = NaN"
| "js_sub PosInf b = PosInf"
| "js_sub NegInf NegInf = NaN"
| "js_sub NegInf b = NegInf"

text \<open>An infinity times or divided by a finite number of the given sign.\<close>

definition inf_times :: "number \<Rightarrow> real \<Rightarrow> number" where
  "inf_times i x = (if x > 0 then i else if x < 0 then js_neg i else NaN)"

fun js_mul :: "number \<Rightarrow> number \<Rightarrow> number" where
  "js_mul NaN b = NaN"
| "js_mul a NaN = NaN"
| "js_mul (Num x) (Num y) = Num (x * y)"
| "js_mul (Num x) b = inf_times b x"
| "js_mul a (Num y) = inf_times a y"
| "js_mul PosInf b = b"
| "js_mul NegInf b = js_neg b"

fun js_div :: "number \<Rightarrow> number \<Rightarrow> number" where
  "js_div NaN b = NaN"
| "js_div a NaN = NaN"
| "js_div (Num x) (Num y) = (if y \<noteq> 0 then Num (x / y) else inf_times PosInf x)"
| "js_div (Num x) b = Num 0"
| "js_div a (Num y) = (if y \<ge> 0 then a else js_neg a)"
| "js_div a b = NaN"

fun js_gt :: "number \<Rightarrow> number \<Rightarrow> bool" where
  "js_gt NaN b = False"
| "js_gt a NaN = False"
| "js_gt (Num x) (Num y) = (x > y)"
| "js_gt PosInf PosInf = False"
| "js_gt PosInf b = True"
| "js_gt NegInf b = False"
| "js_gt (Num x) PosInf = False"
| "js_gt (Num x) NegInf = True"

text \<open>\<open>toFixed\<close> on such a value: the values that are not finite print by name.\<close>

fun toFixed_number :: "nat \<Rightarrow> number \<Rightarrow> string" where
  "toFixed_number f NaN = ''NaN''"
| "toFixed_number f (Num x) = toFixed f x"
| "toFixed_number f PosInf = ''Infinity''"
| "toFixed_number f NegInf = ''-Infinity''"

subsection \<open>parseFloat\<close>

text \<open>
  \<open>parseFloat(s)\<close> skips leading white space and reads the longest prefix that is a
  decimal literal: an optional sign, then \<open>Infinity\<close>, or digits with an optional
  fraction, or a point followed by digits, then an optional exponent (which counts only
  when it has a digit). With no such prefix the result is NaN. Strings are ASCII here, so
  white space is the ASCII white space.
\<close>

definition is_space :: "char \<Rightarrow> bool" where
  "is_space c = (c \<in> set [CHR '' '', CHR 0x09, CHR 0x0A, CHR 0x0B, CHR 0x0C, CHR 0x0D])"

text \<open>The sign in front of a literal, and the rest of the string.\<close>

definition read_sign :: "string \<Rightarrow> bool \<times> string" where
  "read_sign s =
     (case s of
        c # r \<Rightarrow> if c = CHR ''-'' then (True, r) else if c = CHR ''+'' then (False, r)
                 else (False, s)
      | [] \<Rightarrow> (False, s))"

text \<open>The exponent part at the head of a string: its value, \<open>0\<close> when there is none.\<close>

definition read_exponent :: "string \<Rightarrow> int" where
  "read_exponent s =
     (case s of
        c # r \<Rightarrow>
          if c = CHR ''e'' \<or> c = CHR ''E'' then
            (let (neg, r') = read_sign r; ds = takeWhile is_digit r'
             in if ds = [] then 0
                else if neg then - int (digits_val ds) else int (digits_val ds))
          else 0
      | [] \<Rightarrow> 0)"

definition pow10 :: "int \<Rightarrow> real" where
  "pow10 e = (if e < 0 then 1 / 10 ^ nat (- e) else 10 ^ nat e)"

definition parseFloat :: "string \<Rightarrow> number" where
  "parseFloat s =
     (let (neg, r) = read_sign (dropWhile is_space s);
          ip = takeWhile is_digit r;
          r1 = dropWhile is_digit r;
          has_point = (r1 \<noteq> [] \<and> hd r1 = CHR ''.'');
          fp = (if has_point then takeWhile is_digit (tl r1) else []);
          r2 = (if has_point then dropWhile is_digit (tl r1) else r1)
      in if take 8 r = ''Infinity'' then (if neg then NegInf else PosInf)
         else if ip = [] \<and> fp = [] then NaN
         else
           (let m = real (digits_val ip) + real (digits_val fp) / 10 ^ length fp;
                v = m * pow10 (read_exponent r2)
            in Num (if neg then - v else v)))"

text \<open>\<open>n || 0\<close> on a count: a falsy count (zero) is replaced by \<open>0\<close>.\<close>

definition or_zero :: "nat \<Rightarrow> nat" where
  "or_zero n = (if n \<noteq> 0 then n else 0)"

text \<open>\<open>xs.slice(start)\<close>: a negative start counts from the end, and is clipped.\<close>

definition slice_from :: "int \<Rightarrow> 'a list \<Rightarrow> 'a list" where
  "slice_from start xs =
     (let n = int (length xs);
          k = (if start < 0 then max (n + start) 0 else min start n)
      in drop (nat k) xs)"

text \<open>Reading a property of \<open>undefined\<close> throws a TypeError.\<close>

datatype js_error = TypeError

section \<open>Configuration constants\<close>

definition liquidity_min :: real where "liquidity_min = 100000"
definition volatility_threshold :: real where "volatility_threshold = 20"
definition abnormal_tx_ratio :: real where "abnormal_tx_ratio = 10"
definition impermanent_loss_risk :: real where "impermanent_loss_risk = 30"
definition quick_dump_risk :: real where "quick_dump_risk = 15"
definition new_token_risk_days :: real where "new_token_risk_days = 7"
definition pump_warning_threshold :: real where "pump_warning_threshold = 50"

definition price_change_threshold :: real where "price_change_threshold = 10"
definition volume_change_threshold :: real where "volume_change_threshold = 50"
definition liquidity_change_threshold :: real where "liquidity_change_threshold = 20"

section \<open>The market snapshot\<close>

text \<open>
  The object built by \<open>transformDexResponse\<close>. The opaque pass-through fields \<open>info\<close>
  and \<open>boosts\<close> are left out: no function below reads them.
\<close>

record token =
  address :: string
  name :: string
  symbol :: string

record tx_count =
  buys :: nat
  sells :: nat

record 'a windows =
  m5 :: 'a
  h1 :: 'a
  h6 :: 'a
  h24 :: 'a

record pool =
  usd :: real
  base :: real
  quote :: real

record token_data =
  chain_id :: string
  dex_id :: string
  url :: string
  pair_address :: string
  labels :: "string list"
  base_token :: token
  quote_token :: token
  price_native :: string
  price_usd :: string
  txns :: "tx_count windows"
  volume :: "real windows"
  price_change :: "real windows"
  liquidity :: pool
  fdv :: real
  market_cap :: real
  pair_created_at :: real

section \<open>detectAlerts\<close>

text \<open>
  The function runs three blocks in a row, for the price, the volume and the liquidity;
  each block takes the list of alerts so far and may push one alert to it.
\<close>

definition check_price_alert :: "token_data \<Rightarrow> token_data \<Rightarrow> string list \<Rightarrow> string list" where
  "check_price_alert current prev alerts =
     (let currentPrice = parseFloat (price_usd current);
          previousPrice = parseFloat (price_usd prev)
      in if js_gt previousPrice (Num 0) then
           (let priceChange =
                  js_abs (js_mul (js_div (js_sub currentPrice previousPrice) previousPrice)
                            (Num 100))
            in if js_gt priceChange (Num price_change_threshold) then
                 (let direction =
                        (if js_gt currentPrice previousPrice then ''increased''
                         else ''decreased'')
                  in alerts @ [''PRICE ALERT: '' @ symbol (base_token current) @ '' ''
                                 @ direction @ '' by '' @ toFixed_number 2 priceChange @ ''%''])
               else alerts)
         else alerts)"

definition check_volume_alert :: "token_data \<Rightarrow> token_data \<Rightarrow> string list \<Rightarrow> string list" where
  "check_volume_alert current prev alerts =
     (let currentVol = h1 (volume current);
          previousVol = h1 (volume prev)
      in if previousVol > 0 then
           (let volChange = \<bar>(currentVol - previousVol) / previousVol * 100\<bar>
            in if volChange > volume_change_threshold then
                 (let direction =
                        (if currentVol > previousVol then ''increased'' else ''decreased'')
                  in alerts @ [''VOLUME ALERT: Volume '' @ direction @ '' by ''
                                 @ toFixed 2 volChange @ ''%''])
               else alerts)
         else alerts)"

definition check_liquidity_alert ::
  "token_data \<Rightarrow> token_data \<Rightarrow> string list \<Rightarrow> string list" where
  "check_liquidity_alert current prev alerts =
     (let currentLiq = usd (liquidity current);
          previousLiq = usd (liquidity prev)
      in if previousLiq > 0 then
           (let liqChange = \<bar>(currentLiq - previousLiq) / previousLiq * 100\<bar>
            in if liqChange > liquidity_change_threshold then
                 (let direction =
                        (if currentLiq > previousLiq then ''increased'' else ''decreased'')
                  in alerts @ [''LIQUIDITY ALERT: Liquidity '' @ direction @ '' by ''
                                 @ toFixed 2 liqChange @ ''%''])
               else alerts)
         else alerts)"

text \<open>
  \<open>previous\<close> is an argument that may be \<open>undefined\<close>: the function reads
  \<open>previous.price_usd\<close> in its third statement with no test, which throws then.
\<close>

definition detectAlerts :: "token_data \<Rightarrow> token_data option \<Rightarrow> js_error + string list" where
  "detectAlerts current previous =
     (let alerts = []
      in case previous of
           None \<Rightarrow> Inl TypeError
         | Some prev \<Rightarrow>
             Inr (check_liquidity_alert current prev
                    (check_volume_alert current prev
                      (check_price_alert current prev alerts))))"

section \<open>analyzeTokenRisk\<close>

record risk_analysis =
  risk_score :: int
  vulnerabilities :: "string list"
  recommendations :: "string list"

text \<open>
  The three statements every rule runs when it fires: push the vulnerability, add the
  weight to the running score, push the recommendation.
\<close>

definition flag :: "string \<Rightarrow> int \<Rightarrow> string \<Rightarrow> risk_analysis \<Rightarrow> risk_analysis" where
  "flag v w r a =
     a\<lparr>vulnerabilities := vulnerabilities a @ [v],
       risk_score := risk_score a + w,
       recommendations := recommendations a @ [r]\<rparr>"

text \<open>Liquidity check.\<close>

definition check_liquidity :: "token_data \<Rightarrow> risk_analysis \<Rightarrow> risk_analysis" where
  "check_liquidity tokenData a =
     (if usd (liquidity tokenData) < liquidity_min then
        flag ''Low liquidity'' 30 ''Increase liquidity or wait for higher liquidity levels'' a
      else a)"

text \<open>Price volatility, with the impermanent-loss test nested in it.\<close>

definition check_volatility :: "token_data \<Rightarrow> risk_analysis \<Rightarrow> risk_analysis" where
  "check_volatility tokenData a =
     (let volatility = \<bar>h6 (price_change tokenData)\<bar>
      in if volatility > volatility_threshold then
           (let a' = flag (''High volatility: '' @ toFixed 2 volatility @ ''% over 6h'') 20
                       ''Exercise caution due to high fluctuations'' a
            in if volatility > impermanent_loss_risk then
                 flag ''High impermanent loss risk'' 10 ''Consider impermanent loss risks'' a'
               else a')
         else a)"

text \<open>Transaction patterns.\<close>

definition check_tx_pattern :: "token_data \<Rightarrow> risk_analysis \<Rightarrow> risk_analysis" where
  "check_tx_pattern tokenData a =
     (let tx_h6 = or_zero (buys (h6 (txns tokenData))) + or_zero (sells (h6 (txns tokenData)));
          tx_h1 = or_zero (buys (h1 (txns tokenData))) + or_zero (sells (h1 (txns tokenData)))
      in if tx_h1 > 0 \<and> real tx_h6 / real tx_h1 > abnormal_tx_ratio then
           flag ''Unusual transaction pattern'' 20 ''Monitor for market manipulation'' a
         else a)"

text \<open>Market cap vs liquidity.\<close>

definition check_market_cap :: "token_data \<Rightarrow> risk_analysis \<Rightarrow> risk_analysis" where
  "check_market_cap tokenData a =
     (if market_cap tokenData > 0 \<and> market_cap tokenData < usd (liquidity tokenData) then
        flag ''Market cap < liquidity'' 20 ''Review valuation'' a
      else a)"

text \<open>Token age. \<open>now\<close> is the reading of \<open>Date.now()\<close>, in milliseconds.\<close>

definition check_token_age :: "real \<Rightarrow> token_data \<Rightarrow> risk_analysis \<Rightarrow> risk_analysis" where
  "check_token_age now tokenData a =
     (let currentTime = now / 1000;
          token_age = (currentTime - pair_created_at tokenData) / 86400
      in if token_age < new_token_risk_days then
           flag (''New token ('' @ toFixed 1 token_age @ '' days old)'') 15
             ''Consider smaller position size'' a
         else a)"

text \<open>Sell pressure.\<close>

definition check_sell_pressure :: "token_data \<Rightarrow> risk_analysis \<Rightarrow> risk_analysis" where
  "check_sell_pressure tokenData a =
     (let h24_buys = or_zero (buys (h24 (txns tokenData)));
          h24_sells = or_zero (sells (h24 (txns tokenData)));
          total_tx = h24_buys + h24_sells
      in if total_tx > 10 then
           (let sell_pct = real h24_sells / real total_tx * 100
            in if sell_pct > quick_dump_risk then
                 flag (''High selling pressure: '' @ toFixed 1 sell_pct @ ''%'') 25
                   ''Watch for potential sell-off'' a
               else a)
         else a)"

text \<open>Pump detection.\<close>

definition check_pump :: "token_data \<Rightarrow> risk_analysis \<Rightarrow> risk_analysis" where
  "check_pump tokenData a =
     (if h24 (price_change tokenData) > pump_warning_threshold then
        flag (''Possible pump: '' @ toFixed 2 (h24 (price_change tokenData)) @ ''%'') 5
          ''Extreme caution advised'' a
      else a)"

text \<open>Sudden price changes, against the previous snapshot when there is one.\<close>

definition check_sudden_change ::
  "token_data \<Rightarrow> token_data option \<Rightarrow> risk_analysis \<Rightarrow> risk_analysis" where
  "check_sudden_change tokenData previousData a =
     (case previousData of
        None \<Rightarrow> a
      | Some prev \<Rightarrow>
          (let previousPrice = parseFloat (price_usd prev);
               currentPrice = parseFloat (price_usd tokenData)
           in if js_gt previousPrice (Num 0) then
                (let price_diff =
                       js_mul (js_div (js_abs (js_sub currentPrice previousPrice)) previousPrice)
                         (Num 100)
                 in if js_gt price_diff (Num price_change_threshold) then
                      flag (''Sudden price change: '' @ toFixed_number 2 price_diff @ ''%'') 10
                        ''Investigate price movement'' a
                    else a)
              else a))"

text \<open>The rules in the order of the source, before the score is capped.\<close>

definition risk_rules :: "real \<Rightarrow> token_data \<Rightarrow> token_data option \<Rightarrow> risk_analysis" where
  "risk_rules now tokenData previousData =
     check_sudden_change tokenData previousData
       (check_pump tokenData
         (check_sell_pressure tokenData
           (check_token_age now tokenData
             (check_market_cap tokenData
               (check_tx_pattern tokenData
                 (check_volatility tokenData
                   (check_liquidity tokenData
                     \<lparr>risk_score = 0, vulnerabilities = [], recommendations = []\<rparr>)))))))"

definition analyzeTokenRisk :: "real \<Rightarrow> token_data \<Rightarrow> token_data option \<Rightarrow> risk_analysis" where
  "analyzeTokenRisk now tokenData previousData =
     (let a = risk_rules now tokenData previousData
      in \<lparr>risk_score = min (risk_score a) 70,
          vulnerabilities = vulnerabilities a,
          recommendations = recommendations a\<rparr>)"

section \<open>analyzeMarketSentiment\<close>

record sentiment =
  score :: real
  breakdown_social :: real
  breakdown_transactions :: real
  breakdown_price_action :: real
  trends :: "string list"

text \<open>
  The labelling of the trends (the second half of the function), as a function of the
  values it reads: the overall score, the two price changes as fractions, the two counts
  and the previous sentiment.
\<close>

definition label_trends ::
  "real \<Rightarrow> real \<Rightarrow> real \<Rightarrow> nat \<Rightarrow> nat \<Rightarrow> sentiment option \<Rightarrow> string list" where
  "label_trends overall_sentiment price_1h price_24h h24_buys h24_sells previousSentiment =
     (let trends = [];
          trends =
            (if overall_sentiment > 0.7 then trends @ [''Strong bullish sentiment'']
             else if overall_sentiment > 0.3 then trends @ [''Moderate bullish'']
             else if overall_sentiment < - 0.7 then trends @ [''Strong bearish'']
             else if overall_sentiment < - 0.3 then trends @ [''Moderate bearish'']
             else trends @ [''Neutral'']);
          trends =
            (if price_1h > 0 \<and> price_24h < 0 then
               trends @ [''Positive momentum vs negative trend'']
             else if price_1h < 0 \<and> price_24h > 0 then
               trends @ [''Negative momentum vs positive trend'']
             else trends);
          trends =
            (if h24_buys > h24_sells * 2 then trends @ [''Strong buying pressure'']
             else if h24_sells > h24_buys * 2 then trends @ [''Strong selling pressure'']
             else trends);
          trends =
            (case previousSentiment of
               None \<Rightarrow> trends
             | Some prev \<Rightarrow>
                 if \<bar>overall_sentiment - score prev\<bar> > 0.3 then
                   (let direction =
                          (if overall_sentiment > score prev then ''positive'' else ''negative'')
                    in trends @ [''Significant '' @ direction @ '' shift''])
                 else trends)
      in trends)"

definition analyzeMarketSentiment :: "token_data \<Rightarrow> sentiment option \<Rightarrow> sentiment" where
  "analyzeMarketSentiment tokenData previousSentiment =
     (let h24_buys = or_zero (buys (h24 (txns tokenData)));
          h24_sells = or_zero (sells (h24 (txns tokenData)));
          total_tx = h24_buys + h24_sells;
          tx_sentiment =
            (if total_tx > 0 then (real h24_buys - real h24_sells) / real total_tx else 0);
          price_1h = h1 (price_change tokenData) / 100;
          price_24h = h24 (price_change tokenData) / 100;
          price_sentiment = price_1h * 0.6 + price_24h * 0.4;
          price_sentiment = max (- 1.0) (min 1.0 price_sentiment);
          social_sentiment = price_1h * 0.3 + price_24h * 0.7;
          overall_sentiment =
            tx_sentiment * 0.4 + price_sentiment * 0.4 + social_sentiment * 0.2;
          trends =
            label_trends overall_sentiment price_1h price_24h h24_buys h24_sells
              previousSentiment
      in \<lparr>score = overall_sentiment,
          breakdown_social = social_sentiment,
          breakdown_transactions = tx_sentiment,
          breakdown_price_action = price_sentiment,
          trends = trends\<rparr>)"

section \<open>The report\<close>

text \<open>
  The nested object the function returns, with one field for each leaf, named by its
  path: \<open>metrics.transactions.h1.ratio\<close> is \<open>metrics_transactions_h1_ratio\<close>.
\<close>

record report =
  token_name :: string
  token_symbol :: string
  timestamp :: real
  metrics_price_current :: number
  metrics_price_change_h1 :: real
  metrics_price_change_h6 :: real
  metrics_price_change_h24 :: real
  metrics_volume_h1 :: real
  metrics_volume_h6 :: real
  metrics_volume_h24 :: real
  metrics_liquidity :: real
  metrics_market_cap :: real
  metrics_fdv :: real
  metrics_transactions_h1_buys :: nat
  metrics_transactions_h1_sells :: nat
  metrics_transactions_h1_ratio :: real
  risk :: risk_analysis
  ai_insights :: "string list"

text \<open>
  \<open>api_key\<close> is \<open>process.env.CLAUDE_API_KEY\<close>: absent, or a string; the empty string is
  falsy like the absent one.
\<close>

definition generateAIInsights ::
  "string option \<Rightarrow> token_data \<Rightarrow> report option \<Rightarrow> sentiment \<Rightarrow> string list" where
  "generateAIInsights api_key tokenData weeklyData sentiment =
     (if (case api_key of None \<Rightarrow> True | Some k \<Rightarrow> k = []) then
        [''AI insights unavailable - API key missing'']
      else
        (let insights =
               [''Monitor liquidity closely.'',
                ''Consider impermanent loss risk.'',
                ''Unusual transaction pattern detected.'']
         in take 5 insights))"

definition generateAnalyticsReport ::
  "real \<Rightarrow> string option \<Rightarrow> token_data \<Rightarrow> risk_analysis \<Rightarrow> report option \<Rightarrow> sentiment \<Rightarrow> report"
  where
  "generateAnalyticsReport now api_key tokenData riskAnalysis weeklyData sentiment =
     (let ai_insights = generateAIInsights api_key tokenData weeklyData sentiment
      in \<lparr>token_name = name (base_token tokenData),
          token_symbol = symbol (base_token tokenData),
          timestamp = now / 1000,
          metrics_price_current = parseFloat (price_usd tokenData),
          metrics_price_change_h1 = h1 (price_change tokenData),
          metrics_price_change_h6 = h6 (price_change tokenData),
          metrics_price_change_h24 = h24 (price_change tokenData),
          metrics_volume_h1 = h1 (volume tokenData),
          metrics_volume_h6 = h6 (volume tokenData),
          metrics_volume_h24 = h24 (volume tokenData),
          metrics_liquidity = usd (liquidity tokenData),
          metrics_market_cap = market_cap tokenData,
          metrics_fdv = fdv tokenData,
          metrics_transactions_h1_buys = buys (h1 (txns tokenData)),
          metrics_transactions_h1_sells = sells (h1 (txns tokenData)),
          metrics_transactions_h1_ratio =
            (if sells (h1 (txns tokenData)) \<noteq> 0 then
               real (buys (h1 (txns tokenData))) / real (sells (h1 (txns tokenData)))
             else real (buys (h1 (txns tokenData)))),
          risk = riskAnalysis,
          ai_insights = ai_insights\<rparr>)"

section \<open>The invocation step\<close>

record price_point =
  pp_timestamp :: real
  pp_price :: number
  pp_volume :: real

text \<open>The two process-wide stores, \<open>dataCache\<close> and \<open>priceHistory\<close>, keyed by token key.\<close>

record store =
  dataCache :: "string \<rightharpoonup> token_data"
  priceHistory :: "string \<rightharpoonup> price_point list"

text \<open>
  What one invocation reads from outside the program: the result of \<open>getTokenData\<close>
  (the network), the result of \<open>loadWeeklyData\<close> and whether \<open>saveWeeklyData\<close> could
  write (the disk), the environment variable, and the three readings of the clock.
\<close>

record world =
  fetched :: "token_data option"
  stored_weekly :: "report option"
  save_ok :: bool
  api_key :: "string option"
  t_point :: real
  t_risk :: real
  t_report :: real

text \<open>
  What an invocation returns: the error text when no data was found, or the report (the
  source returns it serialised with \<open>JSON.stringify\<close>; the serialisation is not
  modelled); or it ends with a thrown error.
\<close>

datatype run_result = Thrown js_error | ErrorMessage string | ReportJson report

text \<open>
  ``Process alerts if previous data exists'': the lines the step prints, or the error
  \<open>detectAlerts\<close> throws.
\<close>

definition process_alerts :: "token_data \<Rightarrow> token_data option \<Rightarrow> js_error + string list" where
  "process_alerts tokenData previousData =
     (case previousData of
        None \<Rightarrow> Inr []
      | Some prev \<Rightarrow>
          (case detectAlerts tokenData (Some prev) of
             Inl e \<Rightarrow> Inl e
           | Inr alerts \<Rightarrow>
               Inr (if length alerts > 0 then
                      [CHR 0x0A # ''=== ALERTS ===''] @ alerts @ [''=============='' @ [CHR 0x0A]]
                    else [])))"

text \<open>The update of the price history of one token: create, push, cut to the last 1000.\<close>

definition record_price_point ::
  "(string \<rightharpoonup> price_point list) \<Rightarrow> string \<Rightarrow> price_point \<Rightarrow> (string \<rightharpoonup> price_point list)"
  where
  "record_price_point ph tokenKey pricePoint =
     (let ph = (case ph tokenKey of None \<Rightarrow> ph(tokenKey \<mapsto> []) | Some h \<Rightarrow> ph);
          pushed = (case ph tokenKey of None \<Rightarrow> [] | Some h \<Rightarrow> h) @ [pricePoint];
          ph = ph(tokenKey \<mapsto> pushed)
      in if length pushed > 1000 then ph(tokenKey \<mapsto> slice_from (- 1000) pushed) else ph)"

text \<open>The price point the step builds from the snapshot, at the clock reading \<open>now\<close>.\<close>

definition price_point_of :: "real \<Rightarrow> token_data \<Rightarrow> price_point" where
  "price_point_of now tokenData =
     \<lparr>pp_timestamp = now / 1000,
      pp_price = parseFloat (price_usd tokenData),
      pp_volume = h1 (volume tokenData)\<rparr>"

text \<open>
  What \<open>saveWeeklyData\<close> prints: the confirmation, or the error line when the write
  failed (the text of the error itself is left out).
\<close>

definition saveWeeklyData_log :: "bool \<Rightarrow> string \<Rightarrow> string list" where
  "saveWeeklyData_log ok tokenKey =
     (if ok then [''Saved weekly data for '' @ tokenKey] else [''Error saving weekly data:''])"

definition run :: "world \<Rightarrow> string \<Rightarrow> string \<Rightarrow> store \<Rightarrow> run_result \<times> string list \<times> store" where
  "run w chainId tokenAddress st =
     (let tokenKey = chainId @ ''-'' @ tokenAddress
      in case fetched w of
           None \<Rightarrow>
             (ErrorMessage (''Error: Token data not found for '' @ tokenAddress @ '' on ''
                              @ chainId), [], st)
         | Some tokenData \<Rightarrow>
             (let previousData = dataCache st tokenKey
              in case process_alerts tokenData previousData of
                   Inl e \<Rightarrow> (Thrown e, [], st)
                 | Inr printed \<Rightarrow>
                     (let st = st\<lparr>dataCache := (dataCache st)(tokenKey \<mapsto> tokenData)\<rparr>;
                          pricePoint = price_point_of (t_point w) tokenData;
                          st = st\<lparr>priceHistory :=
                                    record_price_point (priceHistory st) tokenKey pricePoint\<rparr>;
                          weeklyData = stored_weekly w;
                          sentiment = analyzeMarketSentiment tokenData None;
                          riskAnalysis = analyzeTokenRisk (t_risk w) tokenData previousData;
                          report =
                            generateAnalyticsReport (t_report w) (api_key w) tokenData
                              riskAnalysis weeklyData sentiment
                      in (ReportJson report, printed @ saveWeeklyData_log (save_ok w) tokenKey,
                          st))))"

text \<open>A process: the stores start empty, and invocations run one after the other.\<close>

definition empty_store :: store where
  "empty_store = \<lparr>dataCache = Map.empty, priceHistory = Map.empty\<rparr>"

definition run_all :: "(world \<times> string \<times> string) list \<Rightarrow> store \<Rightarrow> store" where
  "run_all calls st =
     foldl (\<lambda>st (w, chainId, tokenAddress). snd (snd (run w chainId tokenAddress st))) st calls"

section \<open>The rules of the risk score, as the specification words them\<close>

text \<open>
  The weights of the rules that fire on a snapshot, in the order of the rules: liquidity
  under 100000 (30); six-hour price change beyond 20 in magnitude (20), and beyond 30
  (10 more); six-hour transactions more than ten times the one-hour ones (20); a market
  cap that is positive and under the liquidity (20); an age under seven days (15); more
  than ten transactions in 24 hours with sells over 15 percent of them (25); a 24-hour
  price change over 50 (5); with a previous snapshot of positive price, a price that
  moved by more than 10 percent of it (10).
\<close>

definition fired_weights :: "real \<Rightarrow> token_data \<Rightarrow> token_data option \<Rightarrow> int list" where
  "fired_weights now s previous =
     (if usd (liquidity s) < 100000 then [30] else [])
     @ (if \<bar>h6 (price_change s)\<bar> > 20 then
          20 # (if \<bar>h6 (price_change s)\<bar> > 30 then [10] else [])
        else [])
     @ (let h6_total = buys (h6 (txns s)) + sells (h6 (txns s));
            h1_total = buys (h1 (txns s)) + sells (h1 (txns s))
        in if h1_total > 0 \<and> real h6_total / real h1_total > 10 then [20] else [])
     @ (if market_cap s > 0 \<and> market_cap s < usd (liquidity s) then [20] else [])
     @ (if (now / 1000 - pair_created_at s) / 86400 < 7 then [15] else [])
     @ (let h24_total = buys (h24 (txns s)) + sells (h24 (txns s))
        in if h24_total > 10 \<and> real (sells (h24 (txns s))) / real h24_total * 100 > 15
           then [25] else [])
     @ (if h24 (price_change s) > 50 then [5] else [])
     @ (case previous of
          None \<Rightarrow> []
        | Some p \<Rightarrow>
            if js_gt (parseFloat (price_usd p)) (Num 0)
               \<and> js_gt (js_mul (js_div (js_abs (js_sub (parseFloat (price_usd s))
                                                    (parseFloat (price_usd p))))
                                         (parseFloat (price_usd p))) (Num 100)) (Num 10)
            then [10] else [])"

section \<open>Sample inputs\<close>

text \<open>The snapshot of the specification's worked example, three days old at the clock reading \<open>now\<close>.\<close>

definition no_tx :: tx_count where
  "no_tx = \<lparr>buys = 0, sells = 0\<rparr>"

definition no_token :: token where
  "no_token = \<lparr>address = '''', name = '''', symbol = ''''\<rparr>"

definition example_snapshot :: "real \<Rightarrow> token_data" where
  "example_snapshot now =
     \<lparr>chain_id = '''', dex_id = '''', url = '''', pair_address = '''', labels = [],
      base_token = no_token, quote_token = no_token,
      price_native = ''0'', price_usd = ''0'',
      txns = \<lparr>m5 = no_tx, h1 = no_tx, h6 = no_tx, h24 = \<lparr>buys = 10, sells = 95\<rparr>\<rparr>,
      volume = \<lparr>m5 = 0, h1 = 0, h6 = 0, h24 = 0\<rparr>,
      price_change = \<lparr>m5 = 0, h1 = 0, h6 = 25, h24 = 60\<rparr>,
      liquidity = \<lparr>usd = 50000, base = 0, quote = 0\<rparr>,
      fdv = 0, market_cap = 0,
      pair_created_at = now / 1000 - 3 * 86400\<rparr>"

text \<open>A pair with a six-hour fall of 35 percent.\<close>

definition volatile_snapshot :: token_data where
  "volatile_snapshot =
     \<lparr>chain_id = ''solana'', dex_id = ''raydium'', url = '''', pair_address = '''', labels = [],
      base_token = \<lparr>address = ''So1'', name = ''Token'', symbol = ''TKN''\<rparr>,
      quote_token = \<lparr>address = ''So2'', name = ''USD Coin'', symbol = ''USDC''\<rparr>,
      price_native = ''0.01'', price_usd = ''1.15'',
      txns = \<lparr>m5 = \<lparr>buys = 1, sells = 0\<rparr>, h1 = \<lparr>buys = 4, sells = 2\<rparr>,
              h6 = \<lparr>buys = 20, sells = 10\<rparr>, h24 = \<lparr>buys = 60, sells = 40\<rparr>\<rparr>,
      volume = \<lparr>m5 = 10, h1 = 200, h6 = 900, h24 = 5000\<rparr>,
      price_change = \<lparr>m5 = 1, h1 = 5, h6 = - 35, h24 = 12\<rparr>,
      liquidity = \<lparr>usd = 250000, base = 1000, quote = 2000\<rparr>,
      fdv = 9000000, market_cap = 8000000,
      pair_created_at = 1700000000\<rparr>"

text \<open>A pair whose price rose tenfold in the hour and in the day, and a pair with no trade in 24 hours.\<close>

definition surging_snapshot :: token_data where
  "surging_snapshot =
     \<lparr>chain_id = ''solana'', dex_id = ''raydium'', url = '''', pair_address = '''', labels = [],
      base_token = \<lparr>address = ''So3'', name = ''Rocket'', symbol = ''RKT''\<rparr>,
      quote_token = \<lparr>address = ''So2'', name = ''USD Coin'', symbol = ''USDC''\<rparr>,
      price_native = ''0.02'', price_usd = ''2.20'',
      txns = \<lparr>m5 = \<lparr>buys = 1, sells = 0\<rparr>, h1 = \<lparr>buys = 6, sells = 0\<rparr>,
              h6 = \<lparr>buys = 12, sells = 4\<rparr>, h24 = \<lparr>buys = 30, sells = 10\<rparr>\<rparr>,
      volume = \<lparr>m5 = 10, h1 = 200, h6 = 900, h24 = 5000\<rparr>,
      price_change = \<lparr>m5 = 10, h1 = 1000, h6 = 1000, h24 = 1000\<rparr>,
      liquidity = \<lparr>usd = 250000, base = 1000, quote = 2000\<rparr>,
      fdv = 9000000, market_cap = 8000000,
      pair_created_at = 1700000000\<rparr>"

definition quiet_snapshot :: token_data where
  "quiet_snapshot =
     \<lparr>chain_id = ''solana'', dex_id = ''raydium'', url = '''', pair_address = '''', labels = [],
      base_token = \<lparr>address = ''So4'', name = ''Sleepy'', symbol = ''SLP''\<rparr>,
      quote_token = \<lparr>address = ''So2'', name = ''USD Coin'', symbol = ''USDC''\<rparr>,
      price_native = ''0.5'', price_usd = ''1.00'',
      txns = \<lparr>m5 = \<lparr>buys = 0, sells = 0\<rparr>, h1 = \<lparr>buys = 0, sells = 0\<rparr>,
              h6 = \<lparr>buys = 0, sells = 0\<rparr>, h24 = \<lparr>buys = 0, sells = 0\<rparr>\<rparr>,
      volume = \<lparr>m5 = 0, h1 = 0, h6 = 0, h24 = 0\<rparr>,
      price_change = \<lparr>m5 = 0, h1 = 2, h6 = 3, h24 = - 4\<rparr>,
      liquidity = \<lparr>usd = 250000, base = 1000, quote = 2000\<rparr>,
      fdv = 9000000, market_cap = 8000000,
      pair_created_at = 1700000000\<rparr>"


definition first_world :: world where
  "first_world =
     \<lparr>fetched = Some quiet_snapshot, stored_weekly = None, save_ok = True, api_key = None,
      t_point = 1700600000000, t_risk = 1700600000001, t_report = 1700600000002\<rparr>"

section \<open>The ladder of trend labels\<close>

text \<open>
  The five labels of the first trend, with the thresholds that choose among them, and the
  labels of the trends that can follow.
\<close>

definition ladder_labels :: "string list" where
  "ladder_labels =
     [''Strong bullish sentiment'', ''Moderate bullish'', ''Strong bearish'',
      ''Moderate bearish'', ''Neutral'']"

definition ladder_label :: "real \<Rightarrow> string" where
  "ladder_label overall =
     (if overall > 0.7 then ''Strong bullish sentiment''
      else if overall > 0.3 then ''Moderate bullish''
      else if overall < - 0.7 then ''Strong bearish''
      else if overall < - 0.3 then ''Moderate bearish''
      else ''Neutral'')"

definition other_trends :: "string list" where
  "other_trends =
     [''Positive momentum vs negative trend'', ''Negative momentum vs positive trend'',
      ''Strong buying pressure'', ''Strong selling pressure'',
      ''Significant positive shift'', ''Significant negative shift'']"

section \<open>The alerts, as the specification words them\<close>

text \<open>
  For one metric: the change in percent of the previous value, \<open>|current - previous| /
  previous * 100\<close>, and the word chosen by the sign of \<open>current - previous\<close>; both also
  on numbers read from text. An alert is emitted when the previous value is positive and
  the change exceeds the threshold of the metric: 10 for the price, 50 for the volume,
  20 for the liquidity.
\<close>

definition change_pct :: "real \<Rightarrow> real \<Rightarrow> real" where
  "change_pct cur prev = \<bar>cur - prev\<bar> / prev * 100"

definition direction_word :: "real \<Rightarrow> real \<Rightarrow> string" where
  "direction_word cur prev = (if cur - prev > 0 then ''increased'' else ''decreased'')"

definition js_change_pct :: "number \<Rightarrow> number \<Rightarrow> number" where
  "js_change_pct cur prev = js_mul (js_div (js_abs (js_sub cur prev)) prev) (Num 100)"

definition js_direction_word :: "number \<Rightarrow> number \<Rightarrow> string" where
  "js_direction_word cur prev =
     (if js_gt (js_sub cur prev) (Num 0) then ''increased'' else ''decreased'')"

definition price_alert :: "token_data \<Rightarrow> token_data \<Rightarrow> string list" where
  "price_alert current prev =
     (let c = parseFloat (price_usd current); p = parseFloat (price_usd prev)
      in if js_gt p (Num 0) \<and> js_gt (js_change_pct c p) (Num 10) then
           [''PRICE ALERT: '' @ symbol (base_token current) @ '' '' @ js_direction_word c p
              @ '' by '' @ toFixed_number 2 (js_change_pct c p) @ ''%'']
         else [])"

definition volume_alert :: "token_data \<Rightarrow> token_data \<Rightarrow> string list" where
  "volume_alert current prev =
     (let c = h1 (volume current); p = h1 (volume prev)
      in if p > 0 \<and> change_pct c p > 50 then
           [''VOLUME ALERT: Volume '' @ direction_word c p @ '' by ''
              @ toFixed 2 (change_pct c p) @ ''%'']
         else [])"

definition liquidity_alert :: "token_data \<Rightarrow> token_data \<Rightarrow> string list" where
  "liquidity_alert current prev =
     (let c = usd (liquidity current); p = usd (liquidity prev)
      in if p > 0 \<and> change_pct c p > 20 then
           [''LIQUIDITY ALERT: Liquidity '' @ direction_word c p @ '' by ''
              @ toFixed 2 (change_pct c p) @ ''%'']
         else [])"

section \<open>The price history, as the specification words it\<close>

text \<open>
  The last \<open>n\<close> elements of a list; the price points that a sequence of invocations
  appends to the buffer of a token key, in the order of the invocations; and the buffer
  of a key in a store, empty when the key has none.
\<close>

definition keep_last :: "nat \<Rightarrow> 'a list \<Rightarrow> 'a list" where
  "keep_last n xs = drop (length xs - n) xs"

definition appended_points :: "string \<Rightarrow> (world \<times> string \<times> string) list \<Rightarrow> price_point list" where
  "appended_points tokenKey calls =
     concat (map (\<lambda>(w, chainId, tokenAddress).
                    case fetched w of
                      None \<Rightarrow> []
                    | Some tokenData \<Rightarrow>
                        if chainId @ ''-'' @ tokenAddress = tokenKey
                        then [price_point_of (t_point w) tokenData] else [])
                 calls)"

definition history_of :: "store \<Rightarrow> string \<Rightarrow> price_point list" where
  "history_of st tokenKey = (case priceHistory st tokenKey of None \<Rightarrow> [] | Some h \<Rightarrow> h)"

section \<open>Properties\<close>

subsection \<open>The score each rule adds\<close>

lemma or_zero_id [simp]: "or_zero n = n"
  by (simp add: or_zero_def)

lemma score_flag [simp]: "risk_score (flag v w r a) = risk_score a + w"
  by (simp add: flag_def)

lemma score_check_liquidity:
  "risk_score (check_liquidity s a) = risk_score a + (if usd (liquidity s) < 100000 then 30 else 0)"
  by (simp add: check_liquidity_def liquidity_min_def)

lemma score_check_volatility:
  "risk_score (check_volatility s a) =
     risk_score a + (if \<bar>h6 (price_change s)\<bar> > 20 then
                      20 + (if \<bar>h6 (price_change s)\<bar> > 30 then 10 else 0) else 0)"
  by (simp add: check_volatility_def volatility_threshold_def impermanent_loss_risk_def Let_def)

lemma score_check_tx_pattern:
  "risk_score (check_tx_pattern s a) =
     risk_score a +
       (if buys (h1 (txns s)) + sells (h1 (txns s)) > 0
           \<and> real (buys (h6 (txns s)) + sells (h6 (txns s)))
               / real (buys (h1 (txns s)) + sells (h1 (txns s))) > 10 then 20 else 0)"
  by (simp add: check_tx_pattern_def abnormal_tx_ratio_def Let_def)

lemma score_check_market_cap:
  "risk_score (check_market_cap s a) =
     risk_score a + (if market_cap s > 0 \<and> market_cap s < usd (liquidity s) then 20 else 0)"
  by (simp add: check_market_cap_def)

lemma score_check_token_age:
  "risk_score (check_token_age now s a) =
     risk_score a + (if (now / 1000 - pair_created_at s) / 86400 < 7 then 15 else 0)"
  by (simp add: check_token_age_def new_token_risk_days_def Let_def)

lemma score_check_sell_pressure:
  "risk_score (check_sell_pressure s a) =
     risk_score a +
       (if buys (h24 (txns s)) + sells (h24 (txns s)) > 10
           \<and> real (sells (h24 (txns s))) / real (buys (h24 (txns s)) + sells (h24 (txns s))) * 100 > 15
        then 25 else 0)"
  by (simp add: check_sell_pressure_def quick_dump_risk_def Let_def)

lemma score_check_pump:
  "risk_score (check_pump s a) =
     risk_score a + (if h24 (price_change s) > 50 then 5 else 0)"
  by (simp add: check_pump_def pump_warning_threshold_def)

lemma score_check_sudden_change:
  "risk_score (check_sudden_change s previous a) =
     risk_score a +
       (case previous of
          None \<Rightarrow> 0
        | Some p \<Rightarrow>
            if js_gt (parseFloat (price_usd p)) (Num 0)
               \<and> js_gt (js_mul (js_div (js_abs (js_sub (parseFloat (price_usd s))
                                                    (parseFloat (price_usd p))))
                                         (parseFloat (price_usd p))) (Num 100)) (Num 10)
            then 10 else 0)"
  by (simp add: check_sudden_change_def price_change_threshold_def Let_def split: option.split)

lemmas score_checks = score_check_liquidity score_check_volatility score_check_tx_pattern
  score_check_market_cap score_check_token_age score_check_sell_pressure score_check_pump
  score_check_sudden_change

lemma score_risk_rules:
  "risk_score (risk_rules now s previous) = sum_list (fired_weights now s previous)"
  unfolding risk_rules_def fired_weights_def
  by (simp only: score_checks Let_def sum_list_append)
     (simp split: option.split)

lemma fired_weights_nonneg: "0 \<le> sum_list (fired_weights now s previous)"
  unfolding fired_weights_def Let_def
  by (simp only: sum_list_append) (simp split: option.split)

text \<open>
  C1. For every snapshot, every clock reading and every previous snapshot, present or
  absent, the score that \<open>analyzeTokenRisk\<close> returns is the sum of the weights of the
  rules that fired, capped at 70; it is never negative and never above 70.
\<close>

theorem risk_score_clamped:
  "risk_score (analyzeTokenRisk now s previous) = min (sum_list (fired_weights now s previous)) 70
   \<and> 0 \<le> risk_score (analyzeTokenRisk now s previous)
   \<and> risk_score (analyzeTokenRisk now s previous) \<le> 70"
  using fired_weights_nonneg [of now s previous]
  by (simp add: analyzeTokenRisk_def Let_def score_risk_rules)

subsection \<open>The worked example\<close>

lemma toFixed_25: "toFixed 2 25 = ''25.00''" by code_simp
lemma toFixed_3: "toFixed (Suc 0) 3 = ''3.0''" by code_simp
lemma toFixed_sell_pct: "toFixed (Suc 0) (1900 / 21) = ''90.5''" by code_simp
lemma toFixed_60: "toFixed 2 60 = ''60.00''" by code_simp

lemma ex_liq: "check_liquidity (example_snapshot now) a =
   flag ''Low liquidity'' 30 ''Increase liquidity or wait for higher liquidity levels'' a"
  by (simp add: check_liquidity_def example_snapshot_def liquidity_min_def)

lemma ex_vol: "check_volatility (example_snapshot now) a =
   flag ''High volatility: 25.00% over 6h'' 20 ''Exercise caution due to high fluctuations'' a"
  by (simp add: check_volatility_def example_snapshot_def volatility_threshold_def
        impermanent_loss_risk_def toFixed_25)

lemma ex_tx: "check_tx_pattern (example_snapshot now) a = a"
  by (simp add: check_tx_pattern_def example_snapshot_def no_tx_def)

lemma ex_cap: "check_market_cap (example_snapshot now) a = a"
  by (simp add: check_market_cap_def example_snapshot_def)

lemma ex_age: "check_token_age now (example_snapshot now) a =
   flag ''New token (3.0 days old)'' 15 ''Consider smaller position size'' a"
  by (simp add: check_token_age_def example_snapshot_def new_token_risk_days_def toFixed_3)

lemma ex_sell: "check_sell_pressure (example_snapshot now) a =
   flag ''High selling pressure: 90.5%'' 25 ''Watch for potential sell-off'' a"
  by (simp add: check_sell_pressure_def example_snapshot_def quick_dump_risk_def toFixed_sell_pct)

lemma ex_pump: "check_pump (example_snapshot now) a =
   flag ''Possible pump: 60.00%'' 5 ''Extreme caution advised'' a"
  by (simp add: check_pump_def example_snapshot_def pump_warning_threshold_def toFixed_60)

lemma ex_sudden: "check_sudden_change (example_snapshot now) None a = a"
  by (simp add: check_sudden_change_def)

text \<open>
  C4. On the snapshot of the worked example (liquidity 50000, market cap 0, six-hour
  change 25, 24-hour change 60, created three days before the clock reading, 10 buys and
  95 sells in 24 hours, everything else zero) and no previous snapshot,
  \<open>analyzeTokenRisk\<close> returns exactly the five vulnerabilities of the example, without
  the impermanent-loss entry; the weights sum to 95 and the score returned is 70.
\<close>

theorem example_assessment:
  "analyzeTokenRisk now (example_snapshot now) None =
     \<lparr>risk_score = 70,
      vulnerabilities =
        [''Low liquidity'', ''High volatility: 25.00% over 6h'', ''New token (3.0 days old)'',
         ''High selling pressure: 90.5%'', ''Possible pump: 60.00%''],
      recommendations =
        [''Increase liquidity or wait for higher liquidity levels'',
         ''Exercise caution due to high fluctuations'', ''Consider smaller position size'',
         ''Watch for potential sell-off'', ''Extreme caution advised'']\<rparr>
   \<and> risk_score (risk_rules now (example_snapshot now) None) = 30 + 20 + 15 + 25 + 5
   \<and> risk_score (risk_rules now (example_snapshot now) None) = 95
   \<and> ''High impermanent loss risk'' \<notin> set (vulnerabilities (analyzeTokenRisk now (example_snapshot now) None))"
  by (simp add: analyzeTokenRisk_def risk_rules_def ex_liq ex_vol ex_tx ex_cap ex_age ex_sell
        ex_pump ex_sudden flag_def)

subsection \<open>The vulnerabilities each rule adds\<close>

lemma vulns_flag [simp]: "vulnerabilities (flag v w r a) = vulnerabilities a @ [v]"
  by (simp add: flag_def)

lemma vulns_check_liquidity:
  "vulnerabilities (check_liquidity s a) =
     vulnerabilities a @ (if usd (liquidity s) < 100000 then [''Low liquidity''] else [])"
  by (simp add: check_liquidity_def liquidity_min_def)

lemma vulns_check_volatility:
  "vulnerabilities (check_volatility s a) =
     vulnerabilities a @
       (if \<bar>h6 (price_change s)\<bar> > 20 then
          (''High volatility: '' @ toFixed 2 \<bar>h6 (price_change s)\<bar> @ ''% over 6h'')
          # (if \<bar>h6 (price_change s)\<bar> > 30 then [''High impermanent loss risk''] else [])
        else [])"
  by (simp add: check_volatility_def volatility_threshold_def impermanent_loss_risk_def Let_def)

lemma vulns_check_tx_pattern:
  "vulnerabilities (check_tx_pattern s a) =
     vulnerabilities a @
       (if buys (h1 (txns s)) + sells (h1 (txns s)) > 0
           \<and> real (buys (h6 (txns s)) + sells (h6 (txns s)))
               / real (buys (h1 (txns s)) + sells (h1 (txns s))) > 10
        then [''Unusual transaction pattern''] else [])"
  by (simp add: check_tx_pattern_def abnormal_tx_ratio_def Let_def)

lemma vulns_check_market_cap:
  "vulnerabilities (check_market_cap s a) =
     vulnerabilities a @
       (if market_cap s > 0 \<and> market_cap s < usd (liquidity s)
        then [''Market cap < liquidity''] else [])"
  by (simp add: check_market_cap_def)

lemma vulns_check_token_age:
  "vulnerabilities (check_token_age now s a) =
     vulnerabilities a @
       (if (now / 1000 - pair_created_at s) / 86400 < 7
        then [''New token ('' @ toFixed 1 ((now / 1000 - pair_created_at s) / 86400)
                @ '' days old)'']
        else [])"
  by (simp add: check_token_age_def new_token_risk_days_def Let_def)

lemma vulns_check_sell_pressure:
  "vulnerabilities (check_sell_pressure s a) =
     vulnerabilities a @
       (if buys (h24 (txns s)) + sells (h24 (txns s)) > 10
           \<and> real (sells (h24 (txns s))) / real (buys (h24 (txns s)) + sells (h24 (txns s))) * 100 > 15
        then [''High selling pressure: ''
                @ toFixed 1 (real (sells (h24 (txns s)))
                             / real (buys (h24 (txns s)) + sells (h24 (txns s))) * 100)
                @ ''%'']
        else [])"
  by (simp add: check_sell_pressure_def quick_dump_risk_def Let_def)

lemma vulns_check_pump:
  "vulnerabilities (check_pump s a) =
     vulnerabilities a @
       (if h24 (price_change s) > 50
        then [''Possible pump: '' @ toFixed 2 (h24 (price_change s)) @ ''%''] else [])"
  by (simp add: check_pump_def pump_warning_threshold_def)

lemma vulns_check_sudden_change:
  "\<exists>t. vulnerabilities (check_sudden_change s previous a) =
     vulnerabilities a @ t \<and> (t = [] \<or> (\<exists>u. t = [''Sudden price change: '' @ u]))"
  by (simp add: check_sudden_change_def price_change_threshold_def Let_def split: option.split)

lemmas vulns_checks = vulns_check_liquidity vulns_check_volatility vulns_check_tx_pattern
  vulns_check_market_cap vulns_check_token_age vulns_check_sell_pressure vulns_check_pump

lemma impermanent_in_rules:
  "(''High impermanent loss risk'' \<in> set (vulnerabilities (risk_rules now s previous)))
     = (\<bar>h6 (price_change s)\<bar> > 30)"
proof -
  obtain t where t: "vulnerabilities (risk_rules now s previous) =
      vulnerabilities (check_pump s
         (check_sell_pressure s
           (check_token_age now s
             (check_market_cap s
               (check_tx_pattern s
                 (check_volatility s
                   (check_liquidity s
                     \<lparr>risk_score = 0, vulnerabilities = [], recommendations = []\<rparr>))))))) @ t"
    and "t = [] \<or> (\<exists>u. t = [''Sudden price change: '' @ u])"
    unfolding risk_rules_def using vulns_check_sudden_change by blast
  then have "''High impermanent loss risk'' \<notin> set t" by auto
  then show ?thesis
    unfolding t by (simp only: vulns_checks) auto
qed

lemma volatility_in_rules:
  "((''High volatility: '' @ toFixed 2 \<bar>h6 (price_change s)\<bar> @ ''% over 6h'')
      \<in> set (vulnerabilities (risk_rules now s previous)))
     = (\<bar>h6 (price_change s)\<bar> > 20)"
proof -
  obtain t where t: "vulnerabilities (risk_rules now s previous) =
      vulnerabilities (check_pump s
         (check_sell_pressure s
           (check_token_age now s
             (check_market_cap s
               (check_tx_pattern s
                 (check_volatility s
                   (check_liquidity s
                     \<lparr>risk_score = 0, vulnerabilities = [], recommendations = []\<rparr>))))))) @ t"
    and "t = [] \<or> (\<exists>u. t = [''Sudden price change: '' @ u])"
    unfolding risk_rules_def using vulns_check_sudden_change by blast
  then have "(''High volatility: '' @ toFixed 2 \<bar>h6 (price_change s)\<bar> @ ''% over 6h'') \<notin> set t" by auto
  then show ?thesis
    unfolding t by (simp only: vulns_checks) simp
qed

lemma vulns_analyzeTokenRisk [simp]:
  "vulnerabilities (analyzeTokenRisk now s previous) = vulnerabilities (risk_rules now s previous)"
  by (simp add: analyzeTokenRisk_def Let_def)

text \<open>
  C6. For every input of \<open>analyzeTokenRisk\<close>, the entry ``High impermanent loss risk''
  is among the vulnerabilities exactly when the six-hour price change exceeds 30 in
  magnitude, the ``High volatility'' entry exactly when it exceeds 20, so the first is
  there only if the second is; the volatility rule adds 20 to the score when it fires
  and 10 more when the nested rule fires.
\<close>

theorem impermanent_loss_nested:
  "((''High impermanent loss risk'' \<in> set (vulnerabilities (analyzeTokenRisk now s previous)))
      = (\<bar>h6 (price_change s)\<bar> > 30))
   \<and> ((''High volatility: '' @ toFixed 2 \<bar>h6 (price_change s)\<bar> @ ''% over 6h''
        \<in> set (vulnerabilities (analyzeTokenRisk now s previous)))
      = (\<bar>h6 (price_change s)\<bar> > 20))
   \<and> (''High impermanent loss risk'' \<in> set (vulnerabilities (analyzeTokenRisk now s previous))
      \<longrightarrow> ''High volatility: '' @ toFixed 2 \<bar>h6 (price_change s)\<bar> @ ''% over 6h''
            \<in> set (vulnerabilities (analyzeTokenRisk now s previous)))
   \<and> risk_score (check_volatility s a) =
       risk_score a + (if \<bar>h6 (price_change s)\<bar> > 20 then
                        20 + (if \<bar>h6 (price_change s)\<bar> > 30 then 10 else 0) else 0)"
proof -
  let ?V = "set (vulnerabilities (analyzeTokenRisk now s previous))"
  let ?hv = "''High volatility: '' @ toFixed 2 \<bar>h6 (price_change s)\<bar> @ ''% over 6h''"
  have il: "(''High impermanent loss risk'' \<in> ?V) = (\<bar>h6 (price_change s)\<bar> > 30)"
    by (simp only: vulns_analyzeTokenRisk impermanent_in_rules)
  have hv: "(?hv \<in> ?V) = (\<bar>h6 (price_change s)\<bar> > 20)"
    by (simp only: vulns_analyzeTokenRisk volatility_in_rules)
  have dep: "''High impermanent loss risk'' \<in> ?V \<longrightarrow> ?hv \<in> ?V"
    by (simp only: il hv) simp
  show ?thesis
    by (intro conjI il hv dep score_check_volatility)
qed

lemma toFixed_35: "toFixed 2 35 = ''35.00''"
  by code_simp

theorem impermanent_loss_nested_witness:
  "''High impermanent loss risk'' \<in> set (vulnerabilities (analyzeTokenRisk 1700600000000 volatile_snapshot None))
   \<and> ''High volatility: 35.00% over 6h'' \<in> set (vulnerabilities (analyzeTokenRisk 1700600000000 volatile_snapshot None))"
  using impermanent_loss_nested [of 1700600000000 volatile_snapshot None]
  by (simp add: volatile_snapshot_def toFixed_35)

subsection \<open>Sentiment\<close>

text \<open>
  C8. For every snapshot with no buy and no sell in 24 hours, whatever the previous
  sentiment, the transactions component that \<open>analyzeMarketSentiment\<close> returns is
  exactly 0: the division by the 24-hour total is not evaluated.
\<close>

theorem no_tx_sentiment_zero:
  "buys (h24 (txns s)) = 0 \<Longrightarrow> sells (h24 (txns s)) = 0
   \<Longrightarrow> breakdown_transactions (analyzeMarketSentiment s previousSentiment) = 0"
  by (simp add: analyzeMarketSentiment_def Let_def)

theorem no_tx_sentiment_zero_witness:
  "breakdown_transactions (analyzeMarketSentiment quiet_snapshot None) = 0"
  using no_tx_sentiment_zero [of quiet_snapshot None]
  by (simp add: quiet_snapshot_def)

text \<open>
  C3, as the code has it. At a snapshot whose price rose tenfold (1000 percent) in the
  hour and in the day, the social component is 10 and the score 2.6: neither is in
  \<open>[-1,1]\<close>.
\<close>

theorem sentiment_out_of_range:
  "score (analyzeMarketSentiment surging_snapshot None) = 13 / 5
   \<and> breakdown_social (analyzeMarketSentiment surging_snapshot None) = 10
   \<and> \<not> score (analyzeMarketSentiment surging_snapshot None) \<le> 1
   \<and> \<not> breakdown_social (analyzeMarketSentiment surging_snapshot None) \<le> 1"
  by (simp add: analyzeMarketSentiment_def surging_snapshot_def Let_def)

lemma tx_sentiment_bounds:
  "- 1 \<le> breakdown_transactions (analyzeMarketSentiment s p)
   \<and> breakdown_transactions (analyzeMarketSentiment s p) \<le> 1"
  by (simp add: analyzeMarketSentiment_def Let_def divide_simps)

text \<open>
  C3, amended. For every snapshot and previous sentiment, the transactions and
  price-action components are in \<open>[-1,1]\<close>; the social component is the unclamped
  \<open>0.3 * (h1 / 100) + 0.7 * (h24 / 100)\<close> and the score the unclamped
  \<open>0.4 * transactions + 0.4 * price_action + 0.2 * social\<close>, so the score is bounded
  only by \<open>0.8 + 0.2 * |social|\<close>.
\<close>

theorem sentiment_bounds:
  "- 1 \<le> breakdown_transactions (analyzeMarketSentiment s p)
   \<and> breakdown_transactions (analyzeMarketSentiment s p) \<le> 1
   \<and> - 1 \<le> breakdown_price_action (analyzeMarketSentiment s p)
   \<and> breakdown_price_action (analyzeMarketSentiment s p) \<le> 1
   \<and> breakdown_social (analyzeMarketSentiment s p)
       = 0.3 * (h1 (price_change s) / 100) + 0.7 * (h24 (price_change s) / 100)
   \<and> score (analyzeMarketSentiment s p)
       = 0.4 * breakdown_transactions (analyzeMarketSentiment s p)
         + 0.4 * breakdown_price_action (analyzeMarketSentiment s p)
         + 0.2 * breakdown_social (analyzeMarketSentiment s p)
   \<and> \<bar>score (analyzeMarketSentiment s p)\<bar>
       \<le> 0.8 + 0.2 * \<bar>breakdown_social (analyzeMarketSentiment s p)\<bar>"
proof -
  let ?r = "analyzeMarketSentiment s p"
  have tx: "- 1 \<le> breakdown_transactions ?r \<and> breakdown_transactions ?r \<le> 1"
    by (rule tx_sentiment_bounds)
  have pa: "- 1 \<le> breakdown_price_action ?r \<and> breakdown_price_action ?r \<le> 1"
    by (simp add: analyzeMarketSentiment_def Let_def)
  have so: "breakdown_social ?r
       = 0.3 * (h1 (price_change s) / 100) + 0.7 * (h24 (price_change s) / 100)"
    by (simp add: analyzeMarketSentiment_def Let_def)
  have sc: "score ?r = 0.4 * breakdown_transactions ?r + 0.4 * breakdown_price_action ?r
         + 0.2 * breakdown_social ?r"
    by (simp add: analyzeMarketSentiment_def Let_def)
  have bd: "\<bar>score ?r\<bar> \<le> 0.8 + 0.2 * \<bar>breakdown_social ?r\<bar>"
    using tx pa unfolding sc by linarith
  show ?thesis using tx pa so sc bd by blast
qed

text \<open>
  C5, as the code has it. At the same snapshot the overall score is above 0.7 and the
  trends are ``Strong bullish sentiment'' and ``Strong buying pressure'': the first label
  of the claim, ``Strong bullish'', is not in the list, and neither is any of the other
  four.
\<close>

theorem ladder_label_missing:
  "trends (analyzeMarketSentiment surging_snapshot None)
     = [''Strong bullish sentiment'', ''Strong buying pressure'']
   \<and> ''Strong bullish'' \<notin> set (trends (analyzeMarketSentiment surging_snapshot None))
   \<and> ''Moderate bullish'' \<notin> set (trends (analyzeMarketSentiment surging_snapshot None))
   \<and> ''Strong bearish'' \<notin> set (trends (analyzeMarketSentiment surging_snapshot None))
   \<and> ''Moderate bearish'' \<notin> set (trends (analyzeMarketSentiment surging_snapshot None))
   \<and> ''Neutral'' \<notin> set (trends (analyzeMarketSentiment surging_snapshot None))"
  by (simp add: analyzeMarketSentiment_def label_trends_def surging_snapshot_def Let_def)

lemma label_trends_shape:
  "\<exists>rest. label_trends ov a b c d p = ladder_label ov # rest \<and> set rest \<subseteq> set other_trends"
  by (simp add: label_trends_def ladder_label_def other_trends_def Let_def split: option.split)

lemma trends_analyzeMarketSentiment:
  "trends (analyzeMarketSentiment s p) =
     label_trends (score (analyzeMarketSentiment s p)) (h1 (price_change s) / 100)
       (h24 (price_change s) / 100) (buys (h24 (txns s))) (sells (h24 (txns s))) p"
  by (simp add: analyzeMarketSentiment_def Let_def)

lemma other_trends_not_ladder: "filter (\<lambda>t. t \<in> set ladder_labels) other_trends = []"
  by (simp add: other_trends_def ladder_labels_def)

lemma ladder_label_in_labels: "ladder_label ov \<in> set ladder_labels"
  by (simp add: ladder_label_def ladder_labels_def)

text \<open>
  C5, amended. For every snapshot and previous sentiment, the first element of the
  trends is the ladder label chosen by the thresholds on the overall score (above 0.7
  ``Strong bullish sentiment'', else above 0.3 ``Moderate bullish'', else under -0.7
  ``Strong bearish'', else under -0.3 ``Moderate bearish'', else ``Neutral''), and it is
  the only element of the list that is one of these five labels.
\<close>

theorem one_ladder_label:
  "take 1 (trends (analyzeMarketSentiment s p)) = [ladder_label (score (analyzeMarketSentiment s p))]
   \<and> filter (\<lambda>t. t \<in> set ladder_labels) (trends (analyzeMarketSentiment s p))
       = [ladder_label (score (analyzeMarketSentiment s p))]
   \<and> ladder_label (score (analyzeMarketSentiment s p)) \<in> set ladder_labels"
proof -
  let ?ov = "score (analyzeMarketSentiment s p)"
  obtain rest where r: "trends (analyzeMarketSentiment s p) = ladder_label ?ov # rest"
    and sub: "set rest \<subseteq> set other_trends"
    unfolding trends_analyzeMarketSentiment using label_trends_shape by meson
  have "\<forall>t \<in> set other_trends. t \<notin> set ladder_labels"
    using other_trends_not_ladder by (simp only: filter_empty_conv)
  with sub have "\<forall>t \<in> set rest. t \<notin> set ladder_labels"
    by (meson subsetD)
  then have f: "filter (\<lambda>t. t \<in> set ladder_labels) rest = []"
    by (simp only: filter_empty_conv)
  show ?thesis
    unfolding r using f ladder_label_in_labels [of ?ov] by simp
qed

subsection \<open>The report\<close>

text \<open>
  C10. For every snapshot, the report's \<open>metrics.transactions.h1.ratio\<close> is the
  one-hour buys divided by the one-hour sells when the sells are not zero, and the
  one-hour buys themselves when they are: the division is evaluated only with a divisor
  that is not zero.
\<close>

theorem report_ratio:
  "metrics_transactions_h1_ratio
     (generateAnalyticsReport now key s riskAnalysis weeklyData sen) =
     (if sells (h1 (txns s)) \<noteq> 0 then real (buys (h1 (txns s))) / real (sells (h1 (txns s)))
      else real (buys (h1 (txns s))))"
  by (simp add: generateAnalyticsReport_def Let_def)

subsection \<open>Alerts\<close>

lemma abs_pct: "p > 0 \<Longrightarrow> \<bar>(c - p) / p * 100\<bar> = \<bar>c - p\<bar> / p * (100::real)"
proof -
  assume p: "p > 0"
  have "\<bar>(c - p) / p * 100\<bar> = \<bar>c - p\<bar> / \<bar>p\<bar> * \<bar>100\<bar>"
    by (simp only: abs_mult abs_divide)
  also have "\<dots> = \<bar>c - p\<bar> / p * 100"
    using p by simp
  finally show ?thesis .
qed

lemma abs_change: "p > 0 \<Longrightarrow> \<bar>(c - p) / p * 100\<bar> = change_pct c p"
  by (simp only: change_pct_def abs_pct)

lemma js_abs_change:
  "js_gt p (Num 0) \<Longrightarrow>
   js_abs (js_mul (js_div (js_sub c p) p) (Num 100)) = js_change_pct c p"
proof (cases p)
  case (Num y)
  assume "js_gt p (Num 0)"
  with Num have y: "y > 0" by simp
  show ?thesis
  proof (cases c)
    case (Num x)
    have "js_abs (js_mul (js_div (js_sub c p) p) (Num 100)) = Num \<bar>(x - y) / y * 100\<bar>"
      using y by (simp add: Num \<open>p = Num y\<close>)
    moreover have "js_change_pct c p = Num (\<bar>x - y\<bar> / y * 100)"
      using y by (simp add: Num \<open>p = Num y\<close> js_change_pct_def)
    ultimately show ?thesis by (simp only: abs_pct [OF y])
  qed (use y \<open>p = Num y\<close> in \<open>simp_all add: js_change_pct_def inf_times_def\<close>)
qed (cases c; simp add: js_change_pct_def inf_times_def)+

lemma js_direction:
  "js_gt p (Num 0) \<Longrightarrow> js_gt c p = js_gt (js_sub c p) (Num 0)"
  by (cases c; cases p) simp_all

lemma check_price_alert_eq:
  "check_price_alert current prev alerts = alerts @ price_alert current prev"
proof (cases "js_gt (parseFloat (price_usd prev)) (Num 0)")
  case True
  show ?thesis
    unfolding check_price_alert_def price_alert_def Let_def js_direction_word_def
      js_abs_change [OF True] js_direction [OF True, symmetric] price_change_threshold_def
    using True by simp
next
  case False
  then show ?thesis
    by (simp add: check_price_alert_def price_alert_def Let_def)
qed

lemma check_volume_alert_eq:
  "check_volume_alert current prev alerts = alerts @ volume_alert current prev"
proof (cases "h1 (volume prev) > 0")
  case True
  show ?thesis
    unfolding check_volume_alert_def volume_alert_def Let_def abs_change [OF True]
      direction_word_def volume_change_threshold_def
    using True by simp
next
  case False
  then show ?thesis
    by (simp add: check_volume_alert_def volume_alert_def Let_def)
qed

lemma check_liquidity_alert_eq:
  "check_liquidity_alert current prev alerts = alerts @ liquidity_alert current prev"
proof (cases "usd (liquidity prev) > 0")
  case True
  show ?thesis
    unfolding check_liquidity_alert_def liquidity_alert_def Let_def abs_change [OF True]
      direction_word_def liquidity_change_threshold_def
    using True by simp
next
  case False
  then show ?thesis
    by (simp add: check_liquidity_alert_def liquidity_alert_def Let_def)
qed

lemma detectAlerts_Some:
  "detectAlerts current (Some prev) =
     Inr (price_alert current prev @ volume_alert current prev @ liquidity_alert current prev)"
  by (simp add: detectAlerts_def check_price_alert_eq check_volume_alert_eq
        check_liquidity_alert_eq)






text \<open>
  C2, as the code has it. Called with no previous snapshot, \<open>detectAlerts\<close> does not
  return the empty list: it throws a TypeError.
\<close>

theorem detectAlerts_throws_without_previous:
  "detectAlerts quiet_snapshot None = Inl TypeError
   \<and> detectAlerts quiet_snapshot None \<noteq> Inr []"
  by (simp add: detectAlerts_def)

text \<open>
  C2, amended. The absent previous snapshot is handled by the caller: for every current
  snapshot, \<open>detectAlerts\<close> with no previous snapshot throws a TypeError, and the
  invocation step, when nothing is cached for the token, does not call it: the step
  prints no alert, does not fail, and returns the report.
\<close>

theorem alerts_skipped_without_previous:
  "detectAlerts current None = Inl TypeError
   \<and> process_alerts current None = Inr []
   \<and> (fetched w = Some current \<and> dataCache st (chainId @ ''-'' @ tokenAddress) = None \<longrightarrow>
        fst (run w chainId tokenAddress st) =
          ReportJson (generateAnalyticsReport (t_report w) (api_key w) current
                        (analyzeTokenRisk (t_risk w) current None) (stored_weekly w)
                        (analyzeMarketSentiment current None))
        \<and> fst (snd (run w chainId tokenAddress st)) =
          saveWeeklyData_log (save_ok w) (chainId @ ''-'' @ tokenAddress))"
  by (simp add: detectAlerts_def process_alerts_def run_def Let_def)

theorem alerts_skipped_without_previous_witness:
  "fst (snd (run first_world ''solana'' ''So4'' empty_store)) = [''Saved weekly data for solana-So4'']
   \<and> process_alerts quiet_snapshot None = Inr []"
  using alerts_skipped_without_previous [of quiet_snapshot first_world empty_store "''solana''" "''So4''"]
  by (simp add: first_world_def empty_store_def saveWeeklyData_log_def)

subsection \<open>The price history\<close>

lemma process_alerts_total: "\<exists>printed. process_alerts current previous = Inr printed"
  by (cases previous) (simp_all add: process_alerts_def detectAlerts_Some)

lemma length_keep_last: "length (keep_last n xs) \<le> n"
  by (simp add: keep_last_def)

lemma keep_last_Nil [simp]: "keep_last n [] = []"
  by (simp add: keep_last_def)

lemma keep_last_snoc: "keep_last 1000 (keep_last 1000 xs @ [p]) = keep_last 1000 (xs @ [p])"
proof (cases "length xs \<le> 1000")
  case True
  then show ?thesis by (simp add: keep_last_def)
next
  case False
  then have "Suc (length xs - 1000) = length xs - 999" by arith
  with False show ?thesis by (simp add: keep_last_def)
qed

lemma slice_last_1000: "length xs > 1000 \<Longrightarrow> slice_from (- 1000) xs = keep_last 1000 xs"
proof -
  assume "length xs > 1000"
  then have "nat (int (length xs) + - 1000) = length xs - 1000" by arith
  with \<open>length xs > 1000\<close> show ?thesis
    by (simp add: slice_from_def keep_last_def Let_def)
qed

lemma keep_last_short: "\<not> length xs > 1000 \<Longrightarrow> keep_last 1000 xs = xs"
  by (simp add: keep_last_def)

lemma record_price_point_eq:
  "record_price_point ph k p =
     ph(k \<mapsto> keep_last 1000 ((case ph k of None \<Rightarrow> [] | Some h \<Rightarrow> h) @ [p]))"
proof (cases "ph k")
  case None
  then show ?thesis
    by (simp add: record_price_point_def Let_def keep_last_def)
next
  case (Some h)
  show ?thesis
  proof (cases "length (h @ [p]) > 1000")
    case True
    from slice_last_1000 [OF True] True Some show ?thesis
      by (simp add: record_price_point_def Let_def)
  next
    case False
    from keep_last_short [OF False] False Some show ?thesis
      by (simp add: record_price_point_def Let_def)
  qed
qed

lemma priceHistory_run:
  "priceHistory (snd (snd (run w chainId tokenAddress st))) =
     (case fetched w of
        None \<Rightarrow> priceHistory st
      | Some tokenData \<Rightarrow>
          record_price_point (priceHistory st) (chainId @ ''-'' @ tokenAddress)
            (price_point_of (t_point w) tokenData))"
proof (cases "fetched w")
  case None
  then show ?thesis by (simp add: run_def Let_def)
next
  case (Some tokenData)
  obtain printed where
    "process_alerts tokenData (dataCache st (chainId @ ''-'' @ tokenAddress)) = Inr printed"
    using process_alerts_total by blast
  with Some show ?thesis by (simp add: run_def Let_def)
qed

lemma run_all_snoc:
  "run_all (calls @ [(w, chainId, tokenAddress)]) st =
     snd (snd (run w chainId tokenAddress (run_all calls st)))"
  by (simp add: run_all_def)

lemma appended_points_snoc:
  "appended_points k (calls @ [(w, chainId, tokenAddress)]) =
     appended_points k calls @
       (case fetched w of
          None \<Rightarrow> []
        | Some tokenData \<Rightarrow>
            if chainId @ ''-'' @ tokenAddress = k then [price_point_of (t_point w) tokenData]
            else [])"
  by (simp add: appended_points_def)

lemma history_run_all:
  "priceHistory (run_all calls empty_store) k =
     (if appended_points k calls = [] then None
      else Some (keep_last 1000 (appended_points k calls)))"
proof (induction calls rule: rev_induct)
  case Nil
  show ?case by (simp add: run_all_def empty_store_def appended_points_def)
next
  case (snoc c calls)
  obtain w chainId tokenAddress where c: "c = (w, chainId, tokenAddress)"
    by (cases c) auto
  let ?ph = "priceHistory (run_all calls empty_store)"
  have old: "(case ?ph k of None \<Rightarrow> [] | Some h \<Rightarrow> h) = keep_last 1000 (appended_points k calls)"
    by (simp add: snoc)
  show ?case
  proof (cases "fetched w")
    case None
    with snoc show ?thesis
      by (simp add: c run_all_snoc appended_points_snoc priceHistory_run)
  next
    case (Some tokenData)
    show ?thesis
    proof (cases "chainId @ ''-'' @ tokenAddress = k")
      case True
      have "priceHistory (run_all (calls @ [c]) empty_store) k
              = Some (keep_last 1000 (keep_last 1000 (appended_points k calls)
                                      @ [price_point_of (t_point w) tokenData]))"
        unfolding c run_all_snoc priceHistory_run record_price_point_eq
        using Some True old by simp
      also have "\<dots> = Some (keep_last 1000 (appended_points k calls
                                      @ [price_point_of (t_point w) tokenData]))"
        by (simp only: keep_last_snoc)
      finally show ?thesis
        using Some True by (simp add: c appended_points_snoc)
    next
      case False
      have "priceHistory (run_all (calls @ [c]) empty_store) k = ?ph k"
        unfolding c run_all_snoc priceHistory_run record_price_point_eq
        using Some False by simp
      with snoc Some False show ?thesis
        by (simp add: c appended_points_snoc)
    qed
  qed
qed

text \<open>
  C9. After any sequence of invocations from the start of the process, the buffer of
  every token key holds the last 1000 of the price points appended for that key, in the
  order they were appended (all of them when there are at most 1000; no buffer when
  there is none): its length never exceeds 1000 and the points dropped are the oldest.
\<close>

theorem history_capped:
  "priceHistory (run_all calls empty_store) tokenKey =
     (if appended_points tokenKey calls = [] then None
      else Some (keep_last 1000 (appended_points tokenKey calls)))
   \<and> length (history_of (run_all calls empty_store) tokenKey) \<le> 1000
   \<and> history_of (run_all calls empty_store) tokenKey
       = drop (length (appended_points tokenKey calls) - 1000) (appended_points tokenKey calls)"
proof -
  have h: "history_of (run_all calls empty_store) tokenKey
             = keep_last 1000 (appended_points tokenKey calls)"
    by (simp add: history_of_def history_run_all)
  show ?thesis
    using length_keep_last [of 1000 "appended_points tokenKey calls"]
    by (simp add: h history_run_all) (simp add: keep_last_def)
qed

end
